theory Spec2Isabelle
  imports Complex_Main "HOL-Library.Multiset" "HOL-Library.Product_Lexorder"
begin

section \<open>Numeric cells of a data frame\<close>

text \<open>
  A stored procedure returns rows whose numeric columns hold a number or SQL NULL; a cell
  is a \<^typ>\<open>rat option\<close>. Inside a pandas frame the column is a float column: NULL
  becomes NaN, and the arithmetic of the dashboards can produce NaN and the two
  infinities (division by zero does not raise in pandas). The type \<open>fl\<close> is that float
  with exact arithmetic on its finite values: rounding error and the sign of zero are not
  modelled.
\<close>

datatype fl = Fin rat | PInf | NInf | NaN

fun of_sql :: "rat option \<Rightarrow> fl" where
  "of_sql None = NaN"
| "of_sql (Some r) = Fin r"

definition signed_inf :: "bool \<Rightarrow> fl" where
  "signed_inf positive = (if positive then PInf else NInf)"

fun fl_neg :: "fl \<Rightarrow> fl" where
  "fl_neg (Fin a) = Fin (- a)"
| "fl_neg PInf = NInf"
| "fl_neg NInf = PInf"
| "fl_neg NaN = NaN"

fun fl_add :: "fl \<Rightarrow> fl \<Rightarrow> fl" where
  "fl_add (Fin a) (Fin b) = Fin (a + b)"
| "fl_add NaN _ = NaN"
| "fl_add _ NaN = NaN"
| "fl_add PInf NInf = NaN"
| "fl_add NInf PInf = NaN"
| "fl_add PInf _ = PInf"
| "fl_add _ PInf = PInf"
| "fl_add NInf _ = NInf"
| "fl_add _ NInf = NInf"

definition fl_sub :: "fl \<Rightarrow> fl \<Rightarrow> fl" where
  "fl_sub a b = fl_add a (fl_neg b)"

fun fl_mul :: "fl \<Rightarrow> fl \<Rightarrow> fl" where
  "fl_mul (Fin a) (Fin b) = Fin (a * b)"
| "fl_mul NaN _ = NaN"
| "fl_mul _ NaN = NaN"
| "fl_mul (Fin a) PInf = (if a = 0 then NaN else signed_inf (0 < a))"
| "fl_mul (Fin a) NInf = (if a = 0 then NaN else signed_inf (a < 0))"
| "fl_mul PInf (Fin b) = (if b = 0 then NaN else signed_inf (0 < b))"
| "fl_mul NInf (Fin b) = (if b = 0 then NaN else signed_inf (b < 0))"
| "fl_mul PInf PInf = PInf"
| "fl_mul NInf NInf = PInf"
| "fl_mul PInf NInf = NInf"
| "fl_mul NInf PInf = NInf"

fun fl_div :: "fl \<Rightarrow> fl \<Rightarrow> fl" where
  "fl_div (Fin a) (Fin b) =
     (if b = 0 then (if a = 0 then NaN else signed_inf (0 < a)) else Fin (a / b))"
| "fl_div NaN _ = NaN"
| "fl_div _ NaN = NaN"
| "fl_div (Fin a) PInf = Fin 0"
| "fl_div (Fin a) NInf = Fin 0"
| "fl_div PInf (Fin b) = signed_inf (0 \<le> b)"
| "fl_div NInf (Fin b) = signed_inf (b < 0)"
| "fl_div PInf PInf = NaN"
| "fl_div PInf NInf = NaN"
| "fl_div NInf PInf = NaN"
| "fl_div NInf NInf = NaN"

section \<open>Month-over-month growth (finance dashboard, Monthly Revenue Trend)\<close>

text \<open>
  \<^verbatim>\<open>df_revenue['PrevRevenue'] = df_revenue['TotalRevenue'].shift(1)\<close>:
  the column moved down by one position, NaN in the first one.
\<close>

definition shift1 :: "fl list \<Rightarrow> fl list" where
  "shift1 col = take (length col) (NaN # col)"

text \<open>\<^verbatim>\<open>.replace(0, np.nan)\<close>\<close>

fun replace_zero_nan :: "fl \<Rightarrow> fl" where
  "replace_zero_nan (Fin a) = (if a = 0 then NaN else Fin a)"
| "replace_zero_nan v = v"

text \<open>
  \<^verbatim>\<open>(TotalRevenue - PrevRevenue) / PrevRevenue.replace(0, np.nan) * 100\<close>
  for one row.
\<close>

definition growth_cell :: "fl \<Rightarrow> fl \<Rightarrow> fl" where
  "growth_cell cur prev =
     fl_mul (fl_div (fl_sub cur prev) (replace_zero_nan prev)) (Fin 100)"

text \<open>
  The column \<open>MonthlyGrowth\<close> computed from the column \<open>TotalRevenue\<close> of the frame
  (already in the order the frame has at that point). The dashboard computes it only
  under \<^verbatim>\<open>if revenue_data and len(revenue_data) > 0\<close>, so it never meets an empty
  series; the computation itself is defined on every series.
\<close>

definition monthly_growth :: "rat option list \<Rightarrow> fl list" where
  "monthly_growth total_revenue =
     (let col = map of_sql total_revenue;
          prev_revenue = shift1 col
      in map2 growth_cell col prev_revenue)"

text \<open>
  The change the specification gives for a position with a predecessor:
  \<open>(value[i] / value[i-1] - 1) * 100\<close>, null when the preceding value is 0 or null
  (and when the value itself is null).
\<close>

definition expected_change :: "rat option \<Rightarrow> rat option \<Rightarrow> fl" where
  "expected_change prev cur =
     (case (prev, cur) of
        (Some p, Some c) \<Rightarrow> if p = 0 then NaN else Fin ((c / p - 1) * 100)
      | _ \<Rightarrow> NaN)"

lemma length_shift1: "length (shift1 col) = length col"
  by (simp add: shift1_def)

lemma shift1_nth:
  "i < length col \<Longrightarrow> shift1 col ! i = (if i = 0 then NaN else col ! (i - 1))"
  by (simp add: shift1_def nth_Cons')

lemma growth_cell_first: "growth_cell v NaN = NaN"
  by (cases v) (simp_all add: growth_cell_def fl_sub_def)

lemma growth_cell_sql:
  "growth_cell (of_sql cur) (of_sql prev) = expected_change prev cur"
  by (cases cur; cases prev)
     (simp_all add: growth_cell_def fl_sub_def expected_change_def diff_divide_distrib)

lemma length_monthly_growth: "length (monthly_growth s) = length s"
  by (simp add: monthly_growth_def Let_def length_shift1)

lemma monthly_growth_nth:
  assumes "i < length s"
  shows "monthly_growth s ! i =
           (if i = 0 then NaN else expected_change (s ! (i - 1)) (s ! i))"
  using assms
  by (simp add: monthly_growth_def Let_def length_shift1 shift1_nth growth_cell_first
      growth_cell_sql)

text \<open>
  Claim C1. The growth column has one entry per period. The entry at position 0 is null;
  at every later position it is \<open>(value[i] / value[i-1] - 1) * 100\<close>, and null when the
  preceding value is 0 or null. On an empty or one-element series the result is the
  series of that length with every entry null; nothing is raised (the function is total).
\<close>

theorem period_over_period_change:
  "length (monthly_growth s) = length s \<and>
   (\<forall>i < length s. monthly_growth s ! i =
      (if i = 0 then NaN else expected_change (s ! (i - 1)) (s ! i))) \<and>
   (length s \<le> 1 \<longrightarrow> monthly_growth s = replicate (length s) NaN)"
proof (intro conjI allI impI)
  show "length (monthly_growth s) = length s" by (rule length_monthly_growth)
next
  fix i assume "i < length s"
  then show "monthly_growth s ! i =
      (if i = 0 then NaN else expected_change (s ! (i - 1)) (s ! i))"
    by (rule monthly_growth_nth)
next
  assume "length s \<le> 1"
  then show "monthly_growth s = replicate (length s) NaN"
    by (intro nth_equalityI) (auto simp: length_monthly_growth monthly_growth_nth)
qed

theorem period_over_period_change_witness:
  "(1::nat) < length [Some 100, Some (150::rat)] \<and>
   monthly_growth [Some 100, Some 150] ! 1 = Fin 50 \<and>
   monthly_growth [Some 100, Some 150] ! 0 = NaN \<and>
   length [Some (7::rat)] \<le> 1 \<and>
   monthly_growth [Some 7] = [NaN] \<and>
   monthly_growth [] = []"
  using period_over_period_change [of "[Some 100, Some 150]"]
    period_over_period_change [of "[Some 7]"]
    period_over_period_change [of "[]"]
  by (simp add: expected_change_def)

section \<open>Reductions of a column: comparison, maximum, minimum\<close>

text \<open>
  The comparisons of floats: every comparison with NaN is false, \<open>NaN == NaN\<close> included.
\<close>

fun fl_less :: "fl \<Rightarrow> fl \<Rightarrow> bool" where
  "fl_less (Fin a) (Fin b) = (a < b)"
| "fl_less NaN _ = False"
| "fl_less _ NaN = False"
| "fl_less _ NInf = False"
| "fl_less PInf _ = False"
| "fl_less NInf _ = True"
| "fl_less _ PInf = True"

fun fl_eq :: "fl \<Rightarrow> fl \<Rightarrow> bool" where
  "fl_eq NaN _ = False"
| "fl_eq _ NaN = False"
| "fl_eq a b = (a = b)"

text \<open>
  \<^verbatim>\<open>Series.max()\<close> and \<^verbatim>\<open>Series.min()\<close> skip NaN; on a column with no
  other value (the empty column too) they return NaN.
\<close>

definition series_max :: "fl list \<Rightarrow> fl" where
  "series_max col =
     (case filter (\<lambda>v. v \<noteq> NaN) col of
        [] \<Rightarrow> NaN
      | v # vs \<Rightarrow> fold (\<lambda>x m. if fl_less m x then x else m) vs v)"

definition series_min :: "fl list \<Rightarrow> fl" where
  "series_min col =
     (case filter (\<lambda>v. v \<noteq> NaN) col of
        [] \<Rightarrow> NaN
      | v # vs \<Rightarrow> fold (\<lambda>x m. if fl_less x m then x else m) vs v)"

lemma fold_max_Fin:
  "fold (\<lambda>x m. if fl_less m x then x else m) (map Fin vs) (Fin v) = Fin (fold max vs v)"
  by (induction vs arbitrary: v) (auto simp: max_def)

lemma fold_min_Fin:
  "fold (\<lambda>x m. if fl_less x m then x else m) (map Fin vs) (Fin v) = Fin (fold min vs v)"
  by (induction vs arbitrary: v) (auto simp: min_def)

lemma filter_nan_Fin: "filter (\<lambda>v. v \<noteq> NaN) (map Fin vs) = map Fin vs"
  by (induction vs) simp_all

lemma series_max_Fin:
  assumes "vs \<noteq> []"
  shows "series_max (map Fin vs) = Fin (Max (set vs))"
proof -
  obtain v ws where vs: "vs = v # ws" using assms by (cases vs) auto
  have "Max (set (v # ws)) = fold max ws v" by (rule Max.set_eq_fold)
  then show ?thesis
    by (simp add: vs series_max_def filter_nan_Fin fold_max_Fin del: set_simps)
qed

lemma series_min_Fin:
  assumes "vs \<noteq> []"
  shows "series_min (map Fin vs) = Fin (Min (set vs))"
proof -
  obtain v ws where vs: "vs = v # ws" using assms by (cases vs) auto
  have "Min (set (v # ws)) = fold min ws v" by (rule Min.set_eq_fold)
  then show ?thesis
    by (simp add: vs series_min_def filter_nan_Fin fold_min_Fin del: set_simps)
qed

lemma of_sql_Some: "map of_sql (map Some vs) = map Fin vs"
  by (induction vs) simp_all

section \<open>Normalization to 0-100\<close>

subsection \<open>\<open>normalize_series\<close> of utils.py\<close>

text \<open>
  \<^verbatim>\<open>
  def normalize_series(series):
      if series.max() == series.min():
          return pd.Series([50] * len(series))
      return ((series - series.min()) / (series.max() - series.min())) * 100
  \<close>
\<close>

definition normalize_series :: "fl list \<Rightarrow> fl list" where
  "normalize_series series =
     (if fl_eq (series_max series) (series_min series)
      then replicate (length series) (Fin 50)
      else map (\<lambda>v. fl_mul
                  (fl_div (fl_sub v (series_min series))
                          (fl_sub (series_max series) (series_min series)))
                  (Fin 100)) series)"

subsection \<open>The normalization of the dashboards\<close>

text \<open>
  \<^verbatim>\<open>value / max_val * 100\<close>, the expression both dashboards apply to a value
  once the maximum is known to be positive.
\<close>

definition pct_of_max :: "fl \<Rightarrow> fl \<Rightarrow> fl" where
  "pct_of_max max_val v = fl_mul (fl_div v max_val) (Fin 100)"

text \<open>
  Marketing dashboard, Quarterly Trend Comparison, for one metric column:
  \<^verbatim>\<open>
  max_val = df_normalized[metric].max()
  if max_val > 0:
      df_normalized[f'{metric}_Normalized'] = df_normalized[metric] / max_val * 100
  else:
      df_normalized[f'{metric}_Normalized'] = 0
  \<close>
\<close>

definition normalize_metric :: "rat option list \<Rightarrow> fl list" where
  "normalize_metric metric_col =
     (let col = map of_sql metric_col;
          max_val = series_max col
      in if fl_less (Fin 0) max_val
         then map (pct_of_max max_val) col
         else replicate (length col) (Fin 0))"

text \<open>
  Admin dashboard, Regional Comparison radar chart, for one province and one metric: the
  maximum is taken over the metric's column of the whole regional frame.
  \<^verbatim>\<open>
  max_val = df_region[cat].max()
  if max_val > 0:
      normalized_values.append(province_data[cat] / max_val * 100)
  else:
      normalized_values.append(0)
  \<close>
\<close>

definition radar_value :: "rat option list \<Rightarrow> rat option \<Rightarrow> fl" where
  "radar_value region_col province_val =
     (let max_val = series_max (map of_sql region_col)
      in if fl_less (Fin 0) max_val
         then pct_of_max max_val (of_sql province_val)
         else Fin 0)"

text \<open>
  Claim C6. On a group whose maximum equals its minimum, \<open>normalize_series\<close> returns 50
  for every element: stated for the test the code makes (maximum and minimum of the
  values present compare equal), and for a non-empty group of numbers whose greatest and
  least element coincide.
\<close>

theorem normalize_series_all_equal:
  "(fl_eq (series_max s) (series_min s) \<longrightarrow>
      normalize_series s = replicate (length s) (Fin 50)) \<and>
   (vs \<noteq> [] \<and> Max (set vs) = Min (set vs) \<longrightarrow>
      normalize_series (map Fin vs) = replicate (length vs) (Fin 50))"
  by (simp add: normalize_series_def series_max_Fin series_min_Fin)

theorem normalize_series_all_equal_witness:
  "fl_eq (series_max [Fin 7, NaN, Fin 7]) (series_min [Fin 7, NaN, Fin 7]) \<and>
   normalize_series [Fin 7, NaN, Fin 7] = [Fin 50, Fin 50, Fin 50] \<and>
   [3, 3 :: rat] \<noteq> [] \<and> Max (set [3, 3 :: rat]) = Min (set [3, 3]) \<and>
   normalize_series (map Fin [3, 3]) = [Fin 50, Fin 50]"
  using normalize_series_all_equal [of "[Fin 7, NaN, Fin 7]" "[3, 3]"]
  by (simp add: series_max_def series_min_def)

text \<open>
  Claim C5, as stated, fails on the normalization the dashboards use: it divides by the
  maximum only, so the minimum of the group \<open>50, 100\<close> is mapped to 50, not to 0.
\<close>

theorem min_max_rescale_counterexample:
  "normalize_metric [Some 50, Some 100] = [Fin 50, Fin 100] \<and>
   normalize_metric [Some 50, Some 100] \<noteq>
     map (\<lambda>v. Fin ((v - 50) / (100 - 50) * 100)) [50, 100] \<and>
   radar_value [Some 50, Some 100] (Some 50) = Fin 50 \<and>
   radar_value [Some 50, Some 100] (Some 50) \<noteq> Fin ((50 - 50) / (100 - 50) * 100)"
  by (simp add: normalize_metric_def radar_value_def series_max_def pct_of_max_def)

text \<open>
  Claim C5, amended. For a non-empty group of numbers, the normalization of the
  dashboards maps each value \<open>v\<close> to \<open>v / max * 100\<close> when the maximum is positive (the
  maximum is then mapped to 100) and to 0 otherwise; in the admin radar chart the maximum
  is that of the whole regional column. The helper \<open>normalize_series\<close> of utils.py, which
  no dashboard calls, is the one that maps \<open>v\<close> to \<open>(v - min) / (max - min) * 100\<close>
  when the maximum differs from the minimum.
\<close>

theorem pct_of_max_normalization:
  assumes "vs \<noteq> []"
  shows "normalize_metric (map Some vs) =
           (if 0 < Max (set vs) then map (\<lambda>v. Fin (v / Max (set vs) * 100)) vs
            else replicate (length vs) (Fin 0)) \<and>
         radar_value (map Some vs) (Some v) =
           (if 0 < Max (set vs) then Fin (v / Max (set vs) * 100) else Fin 0) \<and>
         (0 < Max (set vs) \<longrightarrow> Fin 100 \<in> set (normalize_metric (map Some vs))) \<and>
         (Max (set vs) \<noteq> Min (set vs) \<longrightarrow>
            normalize_series (map Fin vs) =
              map (\<lambda>v. Fin ((v - Min (set vs)) / (Max (set vs) - Min (set vs)) * 100)) vs)"
proof -
  have m: "series_max (map of_sql (map Some vs)) = Fin (Max (set vs))"
    unfolding of_sql_Some by (rule series_max_Fin [OF assms])
  have n: "normalize_metric (map Some vs) =
           (if 0 < Max (set vs) then map (\<lambda>v. Fin (v / Max (set vs) * 100)) vs
            else replicate (length vs) (Fin 0))"
    unfolding normalize_metric_def Let_def m unfolding of_sql_Some
    by (auto simp: pct_of_max_def)
  have r: "radar_value (map Some vs) (Some v) =
           (if 0 < Max (set vs) then Fin (v / Max (set vs) * 100) else Fin 0)"
    unfolding radar_value_def Let_def m by (auto simp: pct_of_max_def)
  have "Max (set vs) \<in> set vs" using assms by (intro Max_in) auto
  then have h: "0 < Max (set vs) \<Longrightarrow> Fin 100 \<in> set (normalize_metric (map Some vs))"
    by (auto simp: n image_iff intro!: bexI [of _ "Max (set vs)"])
  have s: "normalize_series (map Fin vs) =
              map (\<lambda>v. Fin ((v - Min (set vs)) / (Max (set vs) - Min (set vs)) * 100)) vs"
    if neq: "Max (set vs) \<noteq> Min (set vs)"
  proof -
    define hi where "hi = Max (set vs)"
    define lo where "lo = Min (set vs)"
    have hi: "series_max (map Fin vs) = Fin hi"
      unfolding hi_def by (rule series_max_Fin [OF assms])
    have lo: "series_min (map Fin vs) = Fin lo"
      unfolding lo_def by (rule series_min_Fin [OF assms])
    have "hi \<noteq> lo" using neq by (simp add: hi_def lo_def)
    then have "normalize_series (map Fin vs) = map (\<lambda>v. Fin ((v - lo) / (hi - lo) * 100)) vs"
      unfolding normalize_series_def hi lo by (simp add: fl_sub_def)
    then show ?thesis by (simp only: hi_def lo_def)
  qed
  from n r h s show ?thesis by blast
qed

theorem pct_of_max_normalization_witness:
  "[50, 100 :: rat] \<noteq> [] \<and> 0 < Max (set [50, 100 :: rat]) \<and>
   Max (set [50, 100 :: rat]) \<noteq> Min (set [50, 100]) \<and>
   normalize_metric [Some 50, Some 100] = [Fin 50, Fin 100] \<and>
   radar_value [Some 50, Some 100] (Some 50) = Fin 50 \<and>
   normalize_series [Fin 50, Fin 100] = [Fin 0, Fin 100]"
  using pct_of_max_normalization [of "[50, 100]" 50]
  by simp

section \<open>Share of total (finance dashboard, User Spending Tiers)\<close>















section \<open>Maximum and minimum highlighting (admin dashboard, Category Performance Comparison)\<close>

text \<open>
  The aggregated frame \<open>category_metrics\<close> has one row per category, numbered from 0
  (\<^verbatim>\<open>reset_index()\<close>), so the label \<^verbatim>\<open>idxmax()\<close> returns is the row's position.
  Its metric columns are sums and means of the product rows and are taken to hold numbers.
  \<^verbatim>\<open>idxmax\<close>/\<^verbatim>\<open>idxmin\<close> return the position of the first occurrence of the
  maximum/minimum and raise ValueError on an empty column.
\<close>

datatype py_error = ValueError

text \<open>
  The scan behind \<^verbatim>\<open>idxmax\<close>: \<open>best\<close> is the position of the greatest value \<open>bv\<close>
  seen so far, \<open>i\<close> the position of the next value; only a strictly greater value
  replaces the best one, so the first occurrence is kept.
\<close>

fun argmax_from :: "nat \<Rightarrow> rat \<Rightarrow> nat \<Rightarrow> rat list \<Rightarrow> nat" where
  "argmax_from best bv i [] = best"
| "argmax_from best bv i (x # xs) =
     (if bv < x then argmax_from i x (Suc i) xs else argmax_from best bv (Suc i) xs)"

fun argmin_from :: "nat \<Rightarrow> rat \<Rightarrow> nat \<Rightarrow> rat list \<Rightarrow> nat" where
  "argmin_from best bv i [] = best"
| "argmin_from best bv i (x # xs) =
     (if x < bv then argmin_from i x (Suc i) xs else argmin_from best bv (Suc i) xs)"

fun idxmax :: "rat list \<Rightarrow> py_error + nat" where
  "idxmax [] = Inl ValueError"
| "idxmax (v # vs) = Inr (argmax_from 0 v 1 vs)"

fun idxmin :: "rat list \<Rightarrow> py_error + nat" where
  "idxmin [] = Inl ValueError"
| "idxmin (v # vs) = Inr (argmin_from 0 v 1 vs)"

text \<open>Position \<open>k\<close> holds the maximum (minimum) of the column and no earlier position does.\<close>

definition first_max_at :: "rat list \<Rightarrow> nat \<Rightarrow> bool" where
  "first_max_at col k \<longleftrightarrow>
     k < length col \<and> (\<forall>j < length col. col ! j \<le> col ! k) \<and> (\<forall>j < k. col ! j < col ! k)"

definition first_min_at :: "rat list \<Rightarrow> nat \<Rightarrow> bool" where
  "first_min_at col k \<longleftrightarrow>
     k < length col \<and> (\<forall>j < length col. col ! k \<le> col ! j) \<and> (\<forall>j < k. col ! k < col ! j)"

lemma argmax_from_first:
  assumes "first_max_at pre best" "pre ! best = bv" "i = length pre"
  shows "first_max_at (pre @ xs) (argmax_from best bv i xs)"
  using assms
proof (induction xs arbitrary: pre best bv i)
  case Nil
  then show ?case by simp
next
  case (Cons x xs)
  show ?case
  proof (cases "bv < x")
    case True
    have "first_max_at (pre @ [x]) i"
      using Cons.prems True
      by (auto simp: first_max_at_def nth_append less_Suc_eq intro: less_imp_le order.strict_trans1
          dest: le_less_trans)
    then have "first_max_at ((pre @ [x]) @ xs) (argmax_from i x (Suc i) xs)"
      using Cons.prems by (intro Cons.IH) (auto simp: nth_append)
    then show ?thesis using True by simp
  next
    case False
    have "first_max_at (pre @ [x]) best"
      using Cons.prems False
      by (auto simp: first_max_at_def nth_append less_Suc_eq)
    then have "first_max_at ((pre @ [x]) @ xs) (argmax_from best bv (Suc i) xs)"
      using Cons.prems by (intro Cons.IH) (auto simp: nth_append first_max_at_def)
    then show ?thesis using False by simp
  qed
qed

lemma argmin_from_first:
  assumes "first_min_at pre best" "pre ! best = bv" "i = length pre"
  shows "first_min_at (pre @ xs) (argmin_from best bv i xs)"
  using assms
proof (induction xs arbitrary: pre best bv i)
  case Nil
  then show ?case by simp
next
  case (Cons x xs)
  show ?case
  proof (cases "x < bv")
    case True
    have "first_min_at (pre @ [x]) i"
      using Cons.prems True
      by (auto simp: first_min_at_def nth_append less_Suc_eq intro: less_imp_le
          dest: less_le_trans)
    then have "first_min_at ((pre @ [x]) @ xs) (argmin_from i x (Suc i) xs)"
      using Cons.prems by (intro Cons.IH) (auto simp: nth_append)
    then show ?thesis using True by simp
  next
    case False
    have "first_min_at (pre @ [x]) best"
      using Cons.prems False
      by (auto simp: first_min_at_def nth_append less_Suc_eq)
    then have "first_min_at ((pre @ [x]) @ xs) (argmin_from best bv (Suc i) xs)"
      using Cons.prems by (intro Cons.IH) (auto simp: nth_append first_min_at_def)
    then show ?thesis using False by simp
  qed
qed

lemma idxmax_first:
  assumes "col \<noteq> []"
  shows "\<exists>k. idxmax col = Inr k \<and> first_max_at col k"
proof -
  obtain v vs where col: "col = v # vs" using assms by (cases col) auto
  have "first_max_at ([v] @ vs) (argmax_from 0 v 1 vs)"
    by (rule argmax_from_first) (simp_all add: first_max_at_def)
  then show ?thesis by (simp add: col)
qed

lemma idxmin_first:
  assumes "col \<noteq> []"
  shows "\<exists>k. idxmin col = Inr k \<and> first_min_at col k"
proof -
  obtain v vs where col: "col = v # vs" using assms by (cases col) auto
  have "first_min_at ([v] @ vs) (argmin_from 0 v 1 vs)"
    by (rule argmin_from_first) (simp_all add: first_min_at_def)
  then show ?thesis by (simp add: col)
qed


text \<open>Sequencing of calls that may raise: the first error is the result.\<close>

fun py_bind :: "py_error + 'a \<Rightarrow> ('a \<Rightarrow> py_error + 'b) \<Rightarrow> py_error + 'b" where
  "py_bind (Inl e) f = Inl e"
| "py_bind (Inr v) f = f v"

text \<open>
  A frame's numeric columns, by name. The two dictionaries are built as the source builds
  them: four \<^verbatim>\<open>idxmax\<close> entries, four \<^verbatim>\<open>idxmin\<close> entries, then
  \<^verbatim>\<open>
  # For discount, reverse the color logic (lower discount is better for profitability)
  max_indices['AvgDiscountPercentage'] = category_metrics['AvgDiscountPercentage'].idxmin()
  min_indices['AvgDiscountPercentage'] = category_metrics['AvgDiscountPercentage'].idxmax()
  \<close>
  The result is the pair \<open>(max_indices, min_indices)\<close>.
\<close>

definition max_min_indices ::
  "(string \<Rightarrow> rat list) \<Rightarrow> py_error + ((string \<rightharpoonup> nat) \<times> (string \<rightharpoonup> nat))" where
  "max_min_indices category_metrics =
     py_bind (idxmax (category_metrics ''OrderCount'')) (\<lambda>max_oc.
     py_bind (idxmax (category_metrics ''TotalQuantitySold'')) (\<lambda>max_qs.
     py_bind (idxmax (category_metrics ''TotalRevenue'')) (\<lambda>max_tr.
     py_bind (idxmax (category_metrics ''AvgSellingPrice'')) (\<lambda>max_sp.
     py_bind (idxmin (category_metrics ''OrderCount'')) (\<lambda>min_oc.
     py_bind (idxmin (category_metrics ''TotalQuantitySold'')) (\<lambda>min_qs.
     py_bind (idxmin (category_metrics ''TotalRevenue'')) (\<lambda>min_tr.
     py_bind (idxmin (category_metrics ''AvgSellingPrice'')) (\<lambda>min_sp.
     py_bind (idxmin (category_metrics ''AvgDiscountPercentage'')) (\<lambda>disc_lo.
     py_bind (idxmax (category_metrics ''AvgDiscountPercentage'')) (\<lambda>disc_hi.
       Inr ([''OrderCount'' \<mapsto> max_oc, ''TotalQuantitySold'' \<mapsto> max_qs,
             ''TotalRevenue'' \<mapsto> max_tr, ''AvgSellingPrice'' \<mapsto> max_sp,
             ''AvgDiscountPercentage'' \<mapsto> disc_lo],
            [''OrderCount'' \<mapsto> min_oc, ''TotalQuantitySold'' \<mapsto> min_qs,
             ''TotalRevenue'' \<mapsto> min_tr, ''AvgSellingPrice'' \<mapsto> min_sp,
             ''AvgDiscountPercentage'' \<mapsto> disc_hi])))))))))))"

text \<open>The columns highlighted without inversion, and all highlighted columns.\<close>

definition plain_columns :: "string list" where
  "plain_columns = [''OrderCount'', ''TotalQuantitySold'', ''TotalRevenue'', ''AvgSellingPrice'']"

definition metric_columns :: "string list" where
  "metric_columns = plain_columns @ [''AvgDiscountPercentage'']"

text \<open>The position \<^verbatim>\<open>idxmax\<close> (\<^verbatim>\<open>idxmin\<close>) returns on a non-empty column.\<close>

definition first_max :: "rat list \<Rightarrow> nat" where
  "first_max col = argmax_from 0 (hd col) 1 (tl col)"

definition first_min :: "rat list \<Rightarrow> nat" where
  "first_min col = argmin_from 0 (hd col) 1 (tl col)"

lemma idxmax_eq: "col \<noteq> [] \<Longrightarrow> idxmax col = Inr (first_max col)"
  by (cases col) (simp_all add: first_max_def)

lemma idxmin_eq: "col \<noteq> [] \<Longrightarrow> idxmin col = Inr (first_min col)"
  by (cases col) (simp_all add: first_min_def)

lemma first_max_first: "col \<noteq> [] \<Longrightarrow> first_max_at col (first_max col)"
  using idxmax_first [of col] by (auto simp: idxmax_eq)

lemma first_min_first: "col \<noteq> [] \<Longrightarrow> first_min_at col (first_min col)"
  using idxmin_first [of col] by (auto simp: idxmin_eq)

lemma max_min_indices_eq:
  assumes "list_all (\<lambda>c. cm c \<noteq> []) metric_columns"
  shows "max_min_indices cm =
     Inr ([''OrderCount'' \<mapsto> first_max (cm ''OrderCount''),
           ''TotalQuantitySold'' \<mapsto> first_max (cm ''TotalQuantitySold''),
           ''TotalRevenue'' \<mapsto> first_max (cm ''TotalRevenue''),
           ''AvgSellingPrice'' \<mapsto> first_max (cm ''AvgSellingPrice''),
           ''AvgDiscountPercentage'' \<mapsto> first_min (cm ''AvgDiscountPercentage'')],
          [''OrderCount'' \<mapsto> first_min (cm ''OrderCount''),
           ''TotalQuantitySold'' \<mapsto> first_min (cm ''TotalQuantitySold''),
           ''TotalRevenue'' \<mapsto> first_min (cm ''TotalRevenue''),
           ''AvgSellingPrice'' \<mapsto> first_min (cm ''AvgSellingPrice''),
           ''AvgDiscountPercentage'' \<mapsto> first_max (cm ''AvgDiscountPercentage'')])"
  using assms
  by (simp add: max_min_indices_def metric_columns_def plain_columns_def idxmax_eq idxmin_eq)

text \<open>
  Claim C7. On a frame with at least one row, both dictionaries are built without error.
  For the inverted field (the discount) the entry of \<open>max_indices\<close> is the position of the
  first minimum of its column and the entry of \<open>min_indices\<close> the position of the first
  maximum; for a field that is not inverted it is the other way round. Hence, on identical
  column data, the inverted field's max index is the non-inverted field's min index and
  vice versa; ties go to the first occurrence in input order in both.
\<close>

theorem inverted_field_swaps_max_min:
  assumes "list_all (\<lambda>c. cm c \<noteq> []) metric_columns"
  shows "\<exists>mx mn. max_min_indices cm = Inr (mx, mn) \<and>
     (\<exists>k. mx ''AvgDiscountPercentage'' = Some k \<and> first_min_at (cm ''AvgDiscountPercentage'') k) \<and>
     (\<exists>k. mn ''AvgDiscountPercentage'' = Some k \<and> first_max_at (cm ''AvgDiscountPercentage'') k) \<and>
     (\<forall>c \<in> set plain_columns.
        (\<exists>k. mx c = Some k \<and> first_max_at (cm c) k) \<and>
        (\<exists>k. mn c = Some k \<and> first_min_at (cm c) k) \<and>
        (cm c = cm ''AvgDiscountPercentage'' \<longrightarrow>
           mx ''AvgDiscountPercentage'' = mn c \<and> mn ''AvgDiscountPercentage'' = mx c))"
proof -
  have ne: "cm ''OrderCount'' \<noteq> []" "cm ''TotalQuantitySold'' \<noteq> []"
    "cm ''TotalRevenue'' \<noteq> []" "cm ''AvgSellingPrice'' \<noteq> []"
    "cm ''AvgDiscountPercentage'' \<noteq> []"
    using assms by (simp_all add: metric_columns_def plain_columns_def)
  show ?thesis
    unfolding max_min_indices_eq [OF assms]
    using ne
    by (auto simp: plain_columns_def first_max_first first_min_first)
qed

text \<open>The example of the specification: revenues 100, 300, 100 in every metric column.\<close>

definition example_metrics :: "string \<Rightarrow> rat list" where
  "example_metrics c = [100, 300, 100]"

theorem inverted_field_swaps_max_min_witness:
  "list_all (\<lambda>c. example_metrics c \<noteq> []) metric_columns \<and>
   ''TotalRevenue'' \<in> set plain_columns \<and>
   example_metrics ''TotalRevenue'' = example_metrics ''AvgDiscountPercentage'' \<and>
   (case max_min_indices example_metrics of
      Inl e \<Rightarrow> False
    | Inr (mx, mn) \<Rightarrow>
        mx ''TotalRevenue'' = Some 1 \<and> mn ''TotalRevenue'' = Some 0 \<and>
        mx ''AvgDiscountPercentage'' = Some 0 \<and> mn ''AvgDiscountPercentage'' = Some 1)"
proof -
  have h: "list_all (\<lambda>c. example_metrics c \<noteq> []) metric_columns"
    by (simp add: example_metrics_def metric_columns_def plain_columns_def)
  have e: "max_min_indices example_metrics =
      Inr ([''OrderCount'' \<mapsto> 1, ''TotalQuantitySold'' \<mapsto> 1, ''TotalRevenue'' \<mapsto> 1,
            ''AvgSellingPrice'' \<mapsto> 1, ''AvgDiscountPercentage'' \<mapsto> 0],
           [''OrderCount'' \<mapsto> 0, ''TotalQuantitySold'' \<mapsto> 0, ''TotalRevenue'' \<mapsto> 0,
            ''AvgSellingPrice'' \<mapsto> 0, ''AvgDiscountPercentage'' \<mapsto> 1])"
    by (simp add: max_min_indices_def example_metrics_def)
  from inverted_field_swaps_max_min [OF h] h show ?thesis
    by (simp add: e plain_columns_def example_metrics_def)
qed

section \<open>Sorting a frame and taking its head\<close>









section \<open>Period series: growth rates are taken on sorted periods\<close>

text \<open>
  A row of a monthly result set: the month as the procedure returns it (\<open>YYYY-MM\<close>) and
  one metric. \<^verbatim>\<open>pd.to_datetime(df['Month'] + '-01')\<close> turns the month into a date,
  modelled for the ISO form \<open>YYYY-MM-DD\<close> the concatenation yields on such months; any
  other string is a parse error here. Dates are year, month, day, ordered
  lexicographically, which is the calendar order.
\<close>

type_synonym date = "nat \<times> nat \<times> nat"





text \<open>
  Finance dashboard, lines 32-36, on the frame sorted by \<open>MonthDate\<close>: the columns
  \<open>PrevRevenue\<close> and \<open>MonthlyGrowth\<close> are added to each row.
\<close>

record growth_row =
  month_date :: date
  month_label :: string
  total_revenue :: fl
  prev_revenue :: fl
  growth_pct :: fl














section \<open>The procedure gateway: \<open>call_stored_procedure\<close> of utils.py\<close>

text \<open>
  A row of a result set maps column names to scalars. The database driver is outside the
  repository; a connection and a cursor are modelled by what their calls do. Creating
  the cursor returns a cursor or raises; \<^verbatim>\<open>callproc\<close> raises or leaves the stored
  results, each of which delivers its rows or raises on \<^verbatim>\<open>fetchall()\<close>; closing the
  cursor returns or raises. An exception carries its message.
\<close>

datatype scalar = Num rat | Str string | Null






















section \<open>The formatters of utils.py\<close>

text \<open>
  \<^verbatim>\<open>
  def format_currency(value):
      if pd.isna(value):
          return "$0.00"
      return f"${value:,.2f}"

  def format_percentage(value):
      if pd.isna(value):
          return "0.00%"
      return f"{value:.2f}%"
  \<close>
  The value is \<^verbatim>\<open>None\<close> or a float. The format \<^verbatim>\<open>.2f\<close> prints the sign of a
  negative number, the number rounded to two decimals (ties to even) with its integer
  part in decimal digits, a point and two digits; \<^verbatim>\<open>,\<close> groups the integer part by
  thousands. The infinities print as \<open>inf\<close> and \<open>-inf\<close>: they are floats but not numbers
  with decimals, and the claim's numeric inputs are the finite ones.
\<close>


























section \<open>The dashboard controllers\<close>

























end
